theory Spec2Isabelle
  imports Main "HOL-Library.Word"
begin

section \<open>Go values and errors\<close>

text \<open>
  The file under study is \<^verbatim>\<open>vendor/k8s.io/dynamic-resource-allocation/cel/compile.go\<close>.
  A Go \<^verbatim>\<open>error\<close> is identified with the text its \<^verbatim>\<open>Error()\<close> method returns, which is
  also what \<^verbatim>\<open>%v\<close> and \<^verbatim>\<open>%w\<close> print. A function returning \<^verbatim>\<open>(x, err)\<close> whose caller reads
  \<^verbatim>\<open>x\<close> only when \<^verbatim>\<open>err == nil\<close> is a sum, \<open>Inl\<close> the error.
\<close>

type_synonym go_error = string

type_synonym QualifiedName = string

text \<open>A run-time panic of the Go program: the function does not return.\<close>

datatype panic = NilPointerDereference | TypeAssertionFailed

text \<open>
  The interface \<^verbatim>\<open>traits.Mapper\<close>, as the two of its methods a program reaches a key
  through: \<^verbatim>\<open>Find(key) (ref.Val, bool)\<close>, used by indexing, and \<^verbatim>\<open>Contains(key) ref.Val\<close>,
  used by the membership test. A \<^verbatim>\<open>ref.Val\<close> that may be \<^verbatim>\<open>nil\<close> is an option.
\<close>

record 'v traits_Mapper =
  Mapper_Find :: "'v \<Rightarrow> 'v option \<times> bool"
  Mapper_Contains :: "'v \<Rightarrow> 'v"

text \<open>The struct \<^verbatim>\<open>mapper\<close>: an embedded \<^verbatim>\<open>traits.Mapper\<close> and a default value.\<close>

record 'v mapper =
  Mapper :: "'v traits_Mapper"
  defaultValue :: "'v option"

text \<open>
  The values of Go's \<^verbatim>\<open>any\<close> that this file stores in its maps: the four native
  attribute values, \<^verbatim>\<open>map[string]any\<close>, \<^verbatim>\<open>map[string]apiservercel.Quantity\<close> and the
  \<^verbatim>\<open>mapper\<close> wrapper. \<open>'sv\<close> is \<^verbatim>\<open>semver.Version\<close>, \<open>'q\<close> is \<^verbatim>\<open>resource.Quantity\<close>,
  \<open>'v\<close> is \<^verbatim>\<open>ref.Val\<close>.
\<close>

datatype ('sv, 'q, 'v) any =
    AnyInt "64 word"
  | AnyBool bool
  | AnyString string
  | AnySemver 'sv
  | AnyMap "string \<Rightarrow> ('sv, 'q, 'v) any option"
  | AnyQuantityMap "string \<Rightarrow> 'q option"
  | AnyMapper "'v mapper"

text \<open>
  What \<^verbatim>\<open>ConvertToNative\<close> hands back: a \<^verbatim>\<open>bool\<close>, or a value of another dynamic type,
  of which the program only observes the type name printed by \<^verbatim>\<open>%T\<close>.
\<close>

datatype native = NativeBool bool | NativeOther string

section \<open>The API types\<close>

record DeviceAttribute =
  IntValue :: "64 word option"
  BoolValue :: "bool option"
  StringValue :: "string option"
  VersionValue :: "string option"

record 'q DeviceCapacity =
  Value :: 'q

text \<open>
  \<^verbatim>\<open>Device\<close>. A Go map is ranged over in an order the language does not fix: the two maps
  are the lists of their entries in the order the \<^verbatim>\<open>range\<close> loop meets them.
\<close>

record 'q Device =
  Driver :: string
  Attributes :: "(QualifiedName \<times> DeviceAttribute) list"
  Capacity :: "(QualifiedName \<times> 'q DeviceCapacity) list"

datatype ErrorType = ErrorTypeInvalid | ErrorTypeInternal

record cel_Error =
  Type :: ErrorType
  Detail :: string

datatype environment_Type = NewExpressions | StoredExpressions

record Options =
  EnvType :: "environment_Type option"
  CostLimit :: "64 word option"

record ('prog, 'ty, 'env, 'v) CompilationResult =
  Program :: "'prog option"
  Error :: "cel_Error option"
  Expression :: string
  OutputType :: "'ty option"
  Environment :: "'env option"
  MaxCost :: "64 word"
  emptyMapVal :: "'v option"

text \<open>\<^verbatim>\<open>compiler\<close>: its \<^verbatim>\<open>envset\<close> is used through \<^verbatim>\<open>envset.Env(type)\<close> only.\<close>

record 'env compiler =
  envset :: "environment_Type \<Rightarrow> go_error + 'env"

section \<open>The expression language, as an injected capability\<close>

datatype ProgramOption = cel_CostLimit "64 word" | cel_InterruptCheckFrequency nat

text \<open>
  The functions of cel-go, apiserver and semver that the file calls, and the two constants
  it reads. \<^verbatim>\<open>types.Adapter\<close> has the single method \<^verbatim>\<open>NativeToValue\<close> and is that function.
  \<^verbatim>\<open>ContextEval\<close> keeps Go's triple, since its caller returns the details with the error.
\<close>

record ('env, 'ast, 'prog, 'ty, 'v, 'details, 'ctx, 'sv, 'q) cel =
  env_Compile :: "'env \<Rightarrow> string \<Rightarrow> string + 'ast"
  BoolType :: 'ty
  AnyType :: 'ty
  Type_String :: "'ty \<Rightarrow> string"
  ast_OutputType :: "'ast \<Rightarrow> 'ty"
  AstToCheckedExpr :: "'ast \<Rightarrow> go_error option"
  env_Program :: "'env \<Rightarrow> 'ast \<Rightarrow> ProgramOption list \<Rightarrow> go_error + 'prog"
  env_CELTypeAdapter :: "'env \<Rightarrow> ('sv, 'q, 'v) any \<Rightarrow> 'v"
  env_EstimateCost :: "'env \<Rightarrow> 'ast \<Rightarrow> go_error + 64 word"
  CELSelectorExpressionMaxCost :: "64 word"
  CheckFrequency :: nat
  semver_Parse :: "string \<Rightarrow> go_error + 'sv"
  NewStringInterfaceMap ::
    "(('sv, 'q, 'v) any \<Rightarrow> 'v) \<Rightarrow> (string \<Rightarrow> ('sv, 'q, 'v) any option) \<Rightarrow> 'v traits_Mapper"
  prog_ContextEval ::
    "'prog \<Rightarrow> 'ctx \<Rightarrow> (string \<Rightarrow> ('sv, 'q, 'v) any option) \<Rightarrow> 'v \<times> 'details option \<times> go_error option"
  val_ConvertToNative :: "'v \<Rightarrow> go_error + native"
  val_TypeName :: "'v \<Rightarrow> string"

section \<open>Qualified names\<close>

text \<open>\<^verbatim>\<open>strings.Index\<close>: the index of the first occurrence of \<open>substr\<close> in \<open>s\<close>, or \<open>-1\<close>.\<close>

fun strings_Index :: "string \<Rightarrow> string \<Rightarrow> int" where
  "strings_Index s substr =
     (if take (length substr) s = substr then 0
      else case s of
        [] \<Rightarrow> -1
      | _ # t \<Rightarrow> (let r = strings_Index t substr in if r = -1 then -1 else r + 1))"

declare strings_Index.simps [simp del]

definition parseQualifiedName :: "QualifiedName \<Rightarrow> string \<Rightarrow> string \<times> string" where
  "parseQualifiedName name defaultDomain =
     (let sep = strings_Index name ''/'' in
      if sep = -1 then (defaultDomain, name)
      else (take (nat sep) name, drop (nat (sep + 1)) name))"

section \<open>The default-value lookup wrapper\<close>

definition newStringInterfaceMapWithDefault ::
  "('env, 'ast, 'prog, 'ty, 'v, 'details, 'ctx, 'sv, 'q) cel \<Rightarrow> (('sv, 'q, 'v) any \<Rightarrow> 'v) \<Rightarrow>
   (string \<Rightarrow> ('sv, 'q, 'v) any option) \<Rightarrow> 'v option \<Rightarrow> 'v mapper" where
  "newStringInterfaceMapWithDefault lib adapter value dflt =
     \<lparr>Mapper = NewStringInterfaceMap lib adapter value, defaultValue = dflt\<rparr>"



section \<open>Compilation\<close>

definition ptr_Deref :: "'a option \<Rightarrow> 'a \<Rightarrow> 'a" where
  "ptr_Deref p def = (case p of None \<Rightarrow> def | Some x \<Rightarrow> x)"

text \<open>The closure \<^verbatim>\<open>resultError\<close>: every field it does not set has Go's zero value.\<close>

definition resultError ::
  "string \<Rightarrow> string \<Rightarrow> ErrorType \<Rightarrow> ('prog, 'ty, 'env, 'v) CompilationResult" where
  "resultError expression errorString errType =
     \<lparr>Program = None,
      Error = Some \<lparr>Type = errType, Detail = errorString\<rparr>,
      Expression = expression,
      OutputType = None,
      Environment = None,
      MaxCost = 0,
      emptyMapVal = None\<rparr>"

definition CompileCELExpression ::
  "('env, 'ast, 'prog, 'ty, 'v, 'details, 'ctx, 'sv, 'q) cel \<Rightarrow> 'env compiler \<Rightarrow> string \<Rightarrow>
   Options \<Rightarrow> ('prog, 'ty, 'env, 'v) CompilationResult" where
  "CompileCELExpression lib c expression options =
     (case envset c (ptr_Deref (EnvType options) StoredExpressions) of
        Inl err \<Rightarrow>
          resultError expression (''unexpected error loading CEL environment: '' @ err)
            ErrorTypeInternal
      | Inr env \<Rightarrow>
          (case env_Compile lib env expression of
             Inl issues \<Rightarrow>
               resultError expression (''compilation failed: '' @ issues) ErrorTypeInvalid
           | Inr ast \<Rightarrow>
               (let expectedReturnType = BoolType lib in
                if ast_OutputType lib ast \<noteq> expectedReturnType \<and>
                   ast_OutputType lib ast \<noteq> AnyType lib
                then resultError expression
                       (''must evaluate to '' @ Type_String lib expectedReturnType @
                        '' or the unknown type, not '' @ Type_String lib (ast_OutputType lib ast))
                       ErrorTypeInvalid
                else
                  (case AstToCheckedExpr lib ast of
                     Some err \<Rightarrow>
                       resultError expression (''unexpected compilation error: '' @ err)
                         ErrorTypeInternal
                   | None \<Rightarrow>
                       (case env_Program lib env ast
                               [cel_CostLimit
                                  (ptr_Deref (CostLimit options) (CELSelectorExpressionMaxCost lib)),
                                cel_InterruptCheckFrequency (CheckFrequency lib)] of
                          Inl err \<Rightarrow>
                            resultError expression (''program instantiation failed: '' @ err)
                              ErrorTypeInternal
                        | Inr prog \<Rightarrow>
                            (let compilationResult =
                                   \<lparr>Program = Some prog,
                                    Error = None,
                                    Expression = expression,
                                    OutputType = Some (ast_OutputType lib ast),
                                    Environment = Some env,
                                    MaxCost = 0,
                                    emptyMapVal =
                                      Some (env_CELTypeAdapter lib env (AnyMap Map.empty))\<rparr>
                             in case env_EstimateCost lib env ast of
                                  Inl err \<Rightarrow>
                                    compilationResult
                                      \<lparr>Error := Some \<lparr>Type = ErrorTypeInternal,
                                                      Detail = ''cost estimation failed: '' @ err\<rparr>\<rparr>
                                | Inr costEst_Max \<Rightarrow>
                                    compilationResult\<lparr>MaxCost := costEst_Max\<rparr>))))))"

section \<open>Evaluation against a device\<close>

definition getAttributeValue ::
  "('env, 'ast, 'prog, 'ty, 'v, 'details, 'ctx, 'sv, 'q) cel \<Rightarrow> DeviceAttribute \<Rightarrow>
   go_error + ('sv, 'q, 'v) any" where
  "getAttributeValue lib attr =
     (case IntValue attr of
        Some i \<Rightarrow> Inr (AnyInt i)
      | None \<Rightarrow>
     (case BoolValue attr of
        Some b \<Rightarrow> Inr (AnyBool b)
      | None \<Rightarrow>
     (case StringValue attr of
        Some s \<Rightarrow> Inr (AnyString s)
      | None \<Rightarrow>
     (case VersionValue attr of
        Some t \<Rightarrow>
          (case semver_Parse lib t of
             Inl err \<Rightarrow> Inl (''parse semantic version: '' @ err)
           | Inr v \<Rightarrow> Inr (AnySemver v))
      | None \<Rightarrow> Inl ''unsupported attribute value''))))"

definition deviceVar :: string where "deviceVar = ''device''"
definition driverVar :: string where "driverVar = ''driver''"
definition attributesVar :: string where "attributesVar = ''attributes''"
definition capacityVar :: string where "capacityVar = ''capacity''"

text \<open>
  The first loop of \<^verbatim>\<open>DeviceMatches\<close>, over the entries still to visit, with the map built
  so far. It ends in a panic (\<open>Inl\<close>), in the early return of an error (\<open>Inr (Inl err)\<close>) or
  with the finished map. \<^verbatim>\<open>attributes[domain] == nil\<close> holds exactly for an absent key, since
  no \<^verbatim>\<open>nil\<close> is ever stored; the type assertion \<^verbatim>\<open>.(map[string]any)\<close> panics on anything
  but a \<^verbatim>\<open>map[string]any\<close>.
\<close>

fun DeviceMatches_attributes ::
  "('env, 'ast, 'prog, 'ty, 'v, 'details, 'ctx, 'sv, 'q) cel \<Rightarrow> string \<Rightarrow>
   (QualifiedName \<times> DeviceAttribute) list \<Rightarrow> (string \<Rightarrow> ('sv, 'q, 'v) any option) \<Rightarrow>
   panic + (go_error + (string \<Rightarrow> ('sv, 'q, 'v) any option))" where
  "DeviceMatches_attributes lib driver [] attributes = Inr (Inr attributes)"
| "DeviceMatches_attributes lib driver ((name, attr) # rest) attributes =
     (case getAttributeValue lib attr of
        Inl err \<Rightarrow> Inr (Inl (''attribute '' @ name @ '': '' @ err))
      | Inr value \<Rightarrow>
          (case parseQualifiedName name driver of
             (domain, ident) \<Rightarrow>
               (let attributes1 =
                      (if attributes domain = None then attributes(domain \<mapsto> AnyMap Map.empty)
                       else attributes)
                in case attributes1 domain of
                     Some (AnyMap inner) \<Rightarrow>
                       DeviceMatches_attributes lib driver rest
                         (attributes1(domain \<mapsto> AnyMap (inner(ident \<mapsto> value))))
                   | _ \<Rightarrow> Inl TypeAssertionFailed)))"

text \<open>The second loop, over the capacities: it has no early return.\<close>

fun DeviceMatches_capacity ::
  "string \<Rightarrow> (QualifiedName \<times> 'q DeviceCapacity) list \<Rightarrow> (string \<Rightarrow> ('sv, 'q, 'v) any option) \<Rightarrow>
   panic + (string \<Rightarrow> ('sv, 'q, 'v) any option)" where
  "DeviceMatches_capacity driver [] capacity = Inr capacity"
| "DeviceMatches_capacity driver ((name, cap) # rest) capacity =
     (case parseQualifiedName name driver of
        (domain, ident) \<Rightarrow>
          (let capacity1 =
                 (if capacity domain = None then capacity(domain \<mapsto> AnyQuantityMap Map.empty)
                  else capacity)
           in case capacity1 domain of
                Some (AnyQuantityMap inner) \<Rightarrow>
                  DeviceMatches_capacity driver rest
                    (capacity1(domain \<mapsto> AnyQuantityMap (inner(ident \<mapsto> Value cap))))
              | _ \<Rightarrow> Inl TypeAssertionFailed))"

declare DeviceMatches_attributes.simps(2) [simp del]

declare DeviceMatches_capacity.simps(2) [simp del]

text \<open>
  The variable binding that \<^verbatim>\<open>DeviceMatches\<close> hands to the program, from the two finished
  maps and the environment of the compilation result: both maps are wrapped with
  \<^verbatim>\<open>c.emptyMapVal\<close> as the default value.
\<close>

definition DeviceMatches_variables ::
  "('env, 'ast, 'prog, 'ty, 'v, 'details, 'ctx, 'sv, 'q) cel \<Rightarrow>
   ('prog, 'ty, 'env, 'v) CompilationResult \<Rightarrow> 'env \<Rightarrow> 'q Device \<Rightarrow>
   (string \<Rightarrow> ('sv, 'q, 'v) any option) \<Rightarrow> (string \<Rightarrow> ('sv, 'q, 'v) any option) \<Rightarrow>
   string \<Rightarrow> ('sv, 'q, 'v) any option" where
  "DeviceMatches_variables lib c env input attributes capacity =
     [deviceVar \<mapsto> AnyMap
        [driverVar \<mapsto> AnyString (Driver input),
         attributesVar \<mapsto> AnyMapper
           (newStringInterfaceMapWithDefault lib (env_CELTypeAdapter lib env)
              attributes (emptyMapVal c)),
         capacityVar \<mapsto> AnyMapper
           (newStringInterfaceMapWithDefault lib (env_CELTypeAdapter lib env)
              capacity (emptyMapVal c))]]"

text \<open>
  The rest of \<^verbatim>\<open>DeviceMatches\<close>, from the two finished maps: the variable binding, the run
  of the program and the conversion of its result. \<^verbatim>\<open>c.Environment\<close> and \<^verbatim>\<open>c.Program\<close> are
  dereferenced in this order.
\<close>

definition DeviceMatches_eval ::
  "('env, 'ast, 'prog, 'ty, 'v, 'details, 'ctx, 'sv, 'q) cel \<Rightarrow>
   ('prog, 'ty, 'env, 'v) CompilationResult \<Rightarrow> 'ctx \<Rightarrow> 'q Device \<Rightarrow>
   (string \<Rightarrow> ('sv, 'q, 'v) any option) \<Rightarrow> (string \<Rightarrow> ('sv, 'q, 'v) any option) \<Rightarrow>
   panic + (bool \<times> 'details option \<times> go_error option)" where
  "DeviceMatches_eval lib c ctx input attributes capacity =
     (case Environment c of
        None \<Rightarrow> Inl NilPointerDereference
      | Some env \<Rightarrow>
          (let variables = DeviceMatches_variables lib c env input attributes capacity
           in case Program c of
                None \<Rightarrow> Inl NilPointerDereference
              | Some prog \<Rightarrow>
                  (case prog_ContextEval lib prog ctx variables of
                     (result, details, Some err) \<Rightarrow> Inr (False, details, Some err)
                   | (result, details, None) \<Rightarrow>
                       (case val_ConvertToNative lib result of
                          Inl err \<Rightarrow>
                            Inr (False, details,
                                 Some (''CEL result of type '' @ val_TypeName lib result @
                                       '' could not be converted to bool: '' @ err))
                        | Inr (NativeOther t) \<Rightarrow>
                            Inr (False, details,
                                 Some (''CEL native result value should have been a bool, got instead: '' @ t))
                        | Inr (NativeBool resultBool) \<Rightarrow> Inr (resultBool, details, None)))))"

definition DeviceMatches ::
  "('env, 'ast, 'prog, 'ty, 'v, 'details, 'ctx, 'sv, 'q) cel \<Rightarrow>
   ('prog, 'ty, 'env, 'v) CompilationResult \<Rightarrow> 'ctx \<Rightarrow> 'q Device \<Rightarrow>
   panic + (bool \<times> 'details option \<times> go_error option)" where
  "DeviceMatches lib c ctx input =
     (case DeviceMatches_attributes lib (Driver input) (Attributes input) Map.empty of
        Inl p \<Rightarrow> Inl p
      | Inr (Inl err) \<Rightarrow> Inr (False, None, Some err)
      | Inr (Inr attributes) \<Rightarrow>
          (case DeviceMatches_capacity (Driver input) (Capacity input) Map.empty of
             Inl p \<Rightarrow> Inl p
           | Inr capacity \<Rightarrow> DeviceMatches_eval lib c ctx input attributes capacity))"

section \<open>Predicates used to state the properties\<close>

text \<open>
  A scalar is a value of \<^verbatim>\<open>any\<close> that is not a map: one more level of nesting is impossible
  below it. \<open>inner_of\<close> and \<open>quantities_of\<close> read the inner map stored under a domain, and
  \<open>only_maps\<close>, \<open>only_quantity_maps\<close> are the loop invariants under which the type assertions
  of the two loops succeed. \<open>populated\<close> counts the value variants an attribute has set.
\<close>

fun is_scalar :: "('sv, 'q, 'v) any \<Rightarrow> bool" where
  "is_scalar (AnyInt i) = True"
| "is_scalar (AnyBool b) = True"
| "is_scalar (AnyString s) = True"
| "is_scalar (AnySemver v) = True"
| "is_scalar (AnyMap m) = False"
| "is_scalar (AnyQuantityMap m) = False"
| "is_scalar (AnyMapper m) = False"

definition inner_of :: "('sv, 'q, 'v) any option \<Rightarrow> string \<Rightarrow> ('sv, 'q, 'v) any option" where
  "inner_of x = (case x of Some (AnyMap inner) \<Rightarrow> inner | _ \<Rightarrow> Map.empty)"

definition only_maps :: "(string \<Rightarrow> ('sv, 'q, 'v) any option) \<Rightarrow> bool" where
  "only_maps A = (\<forall>d v. A d = Some v \<longrightarrow> (\<exists>inner. v = AnyMap inner))"

definition quantities_of :: "('sv, 'q, 'v) any option \<Rightarrow> string \<Rightarrow> 'q option" where
  "quantities_of x = (case x of Some (AnyQuantityMap inner) \<Rightarrow> inner | _ \<Rightarrow> Map.empty)"

definition only_quantity_maps :: "(string \<Rightarrow> ('sv, 'q, 'v) any option) \<Rightarrow> bool" where
  "only_quantity_maps A = (\<forall>d v. A d = Some v \<longrightarrow> (\<exists>inner. v = AnyQuantityMap inner))"


definition populated :: "DeviceAttribute \<Rightarrow> nat" where
  "populated attr =
     (if IntValue attr = None then 0 else 1) + (if BoolValue attr = None then 0 else 1) +
     (if StringValue attr = None then 0 else 1) + (if VersionValue attr = None then 0 else 1)"

section \<open>A small instance of the injected capability\<close>

text \<open>
  A concrete library and compiler on which the theorems below are exercised: four expression
  texts are accepted, with the static types bool, string, any and bool.
\<close>

datatype ex_type = ExBool | ExAny | ExString | ExInt

datatype ex_val =
    ExValBool bool
  | ExValString string
  | ExValMap "string \<Rightarrow> ex_val option"
  | ExValOther

primrec ex_adapter :: "(nat list, int, ex_val) any \<Rightarrow> ex_val" where
  "ex_adapter (AnyInt i) = ExValOther"
| "ex_adapter (AnyBool b) = ExValBool b"
| "ex_adapter (AnyString s) = ExValString s"
| "ex_adapter (AnySemver v) = ExValOther"
| "ex_adapter (AnyMap m) = ExValMap (map_option ex_adapter \<circ> m)"
| "ex_adapter (AnyQuantityMap m) = ExValMap (map_option (\<lambda>q. ExValOther) \<circ> m)"
| "ex_adapter (AnyMapper m) = ExValOther"

definition ex_lib ::
  "(environment_Type, ex_type, ex_type, ex_type, ex_val, nat, unit, nat list, int) cel" where
  "ex_lib =
     \<lparr>env_Compile = (\<lambda>env text.
        if text = ''true'' then Inr ExBool
        else if text = ''device.driver'' then Inr ExString
        else if text = ''device.attributes[d][i]'' then Inr ExAny
        else if text = ''device.capacity[d][i].isInteger()'' then Inr ExBool
        else Inl ''ERROR: <input>:1:1: Syntax error''),
      BoolType = ExBool,
      AnyType = ExAny,
      Type_String = (\<lambda>t. case t of
        ExBool \<Rightarrow> ''bool'' | ExAny \<Rightarrow> ''any'' | ExString \<Rightarrow> ''string'' | ExInt \<Rightarrow> ''int''),
      ast_OutputType = (\<lambda>ast. ast),
      AstToCheckedExpr = (\<lambda>ast. None),
      env_Program = (\<lambda>env ast opts. Inr ast),
      env_CELTypeAdapter = (\<lambda>env. ex_adapter),
      env_EstimateCost = (\<lambda>env ast.
        if ast = ExAny then Inl ''unsupported expression'' else Inr 1),
      CELSelectorExpressionMaxCost = 1000000,
      CheckFrequency = 100,
      semver_Parse = (\<lambda>s.
        if s = ''1.2.3'' then Inr [1, 2, 3] else Inl ''No Major.Minor.Patch elements found''),
      NewStringInterfaceMap = (\<lambda>adapter value.
        \<lparr>Mapper_Find = (\<lambda>key.
           case key of
             ExValString k \<Rightarrow>
               (case value k of None \<Rightarrow> (None, False) | Some x \<Rightarrow> (Some (adapter x), True))
           | _ \<Rightarrow> (None, False)),
         Mapper_Contains = (\<lambda>key.
           case key of
             ExValString k \<Rightarrow> ExValBool (value k \<noteq> None)
           | _ \<Rightarrow> ExValBool False)\<rparr>),
      prog_ContextEval = (\<lambda>prog ctx variables.
        case prog of
          ExBool \<Rightarrow> (ExValBool True, Some 1, None)
        | ExAny \<Rightarrow> (ExValString ''A100'', Some 2, None)
        | ExInt \<Rightarrow> (ExValOther, Some 3, None)
        | ExString \<Rightarrow> (ExValOther, None, Some ''operation cancelled: actual cost limit exceeded'')),
      val_ConvertToNative = (\<lambda>v.
        case v of
          ExValBool b \<Rightarrow> Inr (NativeBool b)
        | ExValOther \<Rightarrow> Inr (NativeOther ''string'')
        | _ \<Rightarrow> Inl ''type conversion error from string to bool''),
      val_TypeName = (\<lambda>v.
        case v of
          ExValBool b \<Rightarrow> ''bool'' | ExValString s \<Rightarrow> ''string'' | ExValMap m \<Rightarrow> ''map''
        | ExValOther \<Rightarrow> ''unknown'')\<rparr>"

definition ex_compiler :: "environment_Type compiler" where
  "ex_compiler = \<lparr>envset = (\<lambda>t. Inr t)\<rparr>"

definition ex_options :: Options where
  "ex_options = \<lparr>EnvType = None, CostLimit = None\<rparr>"

text \<open>
  A device whose attributes all resolve, a device with a malformed version and an attribute
  with no variant set, and compilation results that hold a program.
\<close>

definition ex_device :: "int Device" where
  "ex_device =
     \<lparr>Driver = ''gpu.example.com'',
      Attributes =
        [(''model'', \<lparr>IntValue = None, BoolValue = None, StringValue = Some ''A100'',
                       VersionValue = None\<rparr>),
         (''vendor.example/tier'', \<lparr>IntValue = Some 3, BoolValue = None, StringValue = None,
                       VersionValue = None\<rparr>)],
      Capacity = [(''memory'', \<lparr>Value = 16\<rparr>)]\<rparr>"

definition ex_bad_device :: "int Device" where
  "ex_bad_device =
     \<lparr>Driver = ''gpu.example.com'',
      Attributes =
        [(''model'', \<lparr>IntValue = None, BoolValue = None, StringValue = Some ''A100'',
                       VersionValue = None\<rparr>),
         (''vendor.example/firmware'', \<lparr>IntValue = None, BoolValue = None, StringValue = None,
                       VersionValue = Some ''not-a-version''\<rparr>),
         (''empty'', \<lparr>IntValue = None, BoolValue = None, StringValue = None,
                       VersionValue = None\<rparr>)],
      Capacity = []\<rparr>"

definition ex_result :: "ex_type \<Rightarrow> (ex_type, ex_type, environment_Type, ex_val) CompilationResult" where
  "ex_result prog =
     \<lparr>Program = Some prog, Error = None, Expression = ''true'', OutputType = Some prog,
      Environment = Some StoredExpressions, MaxCost = 1, emptyMapVal = Some (ExValMap Map.empty)\<rparr>"




section \<open>Qualified names: properties\<close>

lemma ex_lib_sel:
  "env_Compile ex_lib =
     (\<lambda>env text.
        if text = ''true'' then Inr ExBool
        else if text = ''device.driver'' then Inr ExString
        else if text = ''device.attributes[d][i]'' then Inr ExAny
        else if text = ''device.capacity[d][i].isInteger()'' then Inr ExBool
        else Inl ''ERROR: <input>:1:1: Syntax error'')"
  "BoolType ex_lib =
     ExBool"
  "AnyType ex_lib =
     ExAny"
  "Type_String ex_lib =
     (\<lambda>t. case t of
        ExBool \<Rightarrow> ''bool'' | ExAny \<Rightarrow> ''any'' | ExString \<Rightarrow> ''string'' | ExInt \<Rightarrow> ''int'')"
  "ast_OutputType ex_lib =
     (\<lambda>ast. ast)"
  "AstToCheckedExpr ex_lib =
     (\<lambda>ast. None)"
  "env_Program ex_lib =
     (\<lambda>env ast opts. Inr ast)"
  "env_CELTypeAdapter ex_lib =
     (\<lambda>env. ex_adapter)"
  "env_EstimateCost ex_lib =
     (\<lambda>env ast.
        if ast = ExAny then Inl ''unsupported expression'' else Inr 1)"
  "CELSelectorExpressionMaxCost ex_lib =
     1000000"
  "CheckFrequency ex_lib =
     100"
  "semver_Parse ex_lib =
     (\<lambda>s.
        if s = ''1.2.3'' then Inr [1, 2, 3] else Inl ''No Major.Minor.Patch elements found'')"
  "NewStringInterfaceMap ex_lib =
     (\<lambda>adapter value.
        \<lparr>Mapper_Find = (\<lambda>key.
           case key of
             ExValString k \<Rightarrow>
               (case value k of None \<Rightarrow> (None, False) | Some x \<Rightarrow> (Some (adapter x), True))
           | _ \<Rightarrow> (None, False)),
         Mapper_Contains = (\<lambda>key.
           case key of
             ExValString k \<Rightarrow> ExValBool (value k \<noteq> None)
           | _ \<Rightarrow> ExValBool False)\<rparr>)"
  "prog_ContextEval ex_lib =
     (\<lambda>prog ctx variables.
        case prog of
          ExBool \<Rightarrow> (ExValBool True, Some 1, None)
        | ExAny \<Rightarrow> (ExValString ''A100'', Some 2, None)
        | ExInt \<Rightarrow> (ExValOther, Some 3, None)
        | ExString \<Rightarrow> (ExValOther, None, Some ''operation cancelled: actual cost limit exceeded''))"
  "val_ConvertToNative ex_lib =
     (\<lambda>v.
        case v of
          ExValBool b \<Rightarrow> Inr (NativeBool b)
        | ExValOther \<Rightarrow> Inr (NativeOther ''string'')
        | _ \<Rightarrow> Inl ''type conversion error from string to bool'')"
  "val_TypeName ex_lib =
     (\<lambda>v.
        case v of
          ExValBool b \<Rightarrow> ''bool'' | ExValString s \<Rightarrow> ''string'' | ExValMap m \<Rightarrow> ''map''
        | ExValOther \<Rightarrow> ''unknown'')"
  by (simp_all add: ex_lib_def)

lemma strings_Index_absent: "c \<notin> set s \<Longrightarrow> strings_Index s [c] = -1"
proof (induction s)
  case Nil
  show ?case by (simp add: strings_Index.simps [of "[]"])
next
  case (Cons x s)
  then show ?case by (auto simp add: strings_Index.simps [of "x # s"])
qed

lemma strings_Index_first: "c \<notin> set a \<Longrightarrow> strings_Index (a @ c # b) [c] = int (length a)"
proof (induction a)
  case Nil
  show ?case by (simp add: strings_Index.simps [of "c # b"])
next
  case (Cons x a)
  then show ?case by (auto simp add: strings_Index.simps [of "x # a @ c # b"])
qed

lemma strings_Index_range:
  "strings_Index s [c] = -1 \<or> (0 \<le> strings_Index s [c] \<and> strings_Index s [c] < int (length s))"
proof (induction s)
  case Nil
  show ?case by (simp add: strings_Index.simps [of "[]"])
next
  case (Cons x s)
  then show ?case by (auto simp add: strings_Index.simps [of "x # s"] Let_def)
qed

text \<open>
  C4. \<^verbatim>\<open>parseQualifiedName\<close> splits the name at its first \<^verbatim>\<open>/\<close> into domain and identifier;
  a name with no \<^verbatim>\<open>/\<close> gives the default domain and the whole name. The two examples of the
  specification hold, and parsing cannot fail: the separator index is \<open>-1\<close> or within the
  name, so both slice expressions are in range.
\<close>

theorem parseQualifiedName_split:
  "(CHR ''/'' \<notin> set name \<longrightarrow> parseQualifiedName name defaultDomain = (defaultDomain, name)) \<and>
   (CHR ''/'' \<notin> set domain \<longrightarrow>
      parseQualifiedName (domain @ ''/'' @ ident) defaultDomain = (domain, ident)) \<and>
   parseQualifiedName ''vendor/tier'' ''driverX'' = (''vendor'', ''tier'') \<and>
   parseQualifiedName ''tier'' ''driverX'' = (''driverX'', ''tier'') \<and>
   (strings_Index name ''/'' = -1 \<or>
    (0 \<le> strings_Index name ''/'' \<and> strings_Index name ''/'' + 1 \<le> int (length name)))"
proof (intro conjI impI)
  assume "CHR ''/'' \<notin> set name"
  then show "parseQualifiedName name defaultDomain = (defaultDomain, name)"
    by (simp add: parseQualifiedName_def strings_Index_absent)
next
  assume "CHR ''/'' \<notin> set domain"
  then have "strings_Index (domain @ ''/'' @ ident) ''/'' = int (length domain)"
    using strings_Index_first [of "CHR ''/''" domain ident] by simp
  then show "parseQualifiedName (domain @ ''/'' @ ident) defaultDomain = (domain, ident)"
    by (simp add: parseQualifiedName_def nat_add_distrib)
next
  have "strings_Index (''vendor'' @ CHR ''/'' # ''tier'') ''/'' = int (length ''vendor'')"
    by (rule strings_Index_first) simp
  then show "parseQualifiedName ''vendor/tier'' ''driverX'' = (''vendor'', ''tier'')"
    by (simp add: parseQualifiedName_def)
next
  have "strings_Index ''tier'' ''/'' = -1"
    by (rule strings_Index_absent) simp
  then show "parseQualifiedName ''tier'' ''driverX'' = (''driverX'', ''tier'')"
    by (simp add: parseQualifiedName_def)
next
  show "strings_Index name ''/'' = -1 \<or>
    (0 \<le> strings_Index name ''/'' \<and> strings_Index name ''/'' + 1 \<le> int (length name))"
    using strings_Index_range [of name "CHR ''/''"] by auto
qed

theorem parseQualifiedName_split_witness:
  "parseQualifiedName ''model'' ''gpu.example.com'' = (''gpu.example.com'', ''model'') \<and>
   parseQualifiedName ''a/b/c'' ''gpu.example.com'' = (''a'', ''b/c'')"
  using parseQualifiedName_split [of "''model''" "''gpu.example.com''" "''a''" "''b/c''"]
  by simp

section \<open>The lookup wrapper\<close>






section \<open>Resolving attribute values\<close>

text \<open>
  C9. \<^verbatim>\<open>getAttributeValue\<close> resolves an attribute by the fixed order integer, boolean, string,
  semantic version. With two or more variants populated it does not fail, and it returns the
  error \<^verbatim>\<open>unsupported attribute value\<close> exactly when no variant is populated.
\<close>

theorem getAttributeValue_precedence:
  "(2 \<le> populated attr \<longrightarrow> (\<exists>v. getAttributeValue lib attr = Inr v)) \<and>
   (IntValue attr = Some i \<longrightarrow> getAttributeValue lib attr = Inr (AnyInt i)) \<and>
   (IntValue attr = None \<and> BoolValue attr = Some b \<longrightarrow>
      getAttributeValue lib attr = Inr (AnyBool b)) \<and>
   (IntValue attr = None \<and> BoolValue attr = None \<and> StringValue attr = Some s \<longrightarrow>
      getAttributeValue lib attr = Inr (AnyString s)) \<and>
   (IntValue attr = None \<and> BoolValue attr = None \<and> StringValue attr = None \<and>
    VersionValue attr = Some t \<longrightarrow>
      getAttributeValue lib attr =
        (case semver_Parse lib t of
           Inl err \<Rightarrow> Inl (''parse semantic version: '' @ err)
         | Inr v \<Rightarrow> Inr (AnySemver v))) \<and>
   (getAttributeValue lib attr = Inl ''unsupported attribute value'' \<longleftrightarrow> populated attr = 0)"
proof (intro conjI impI)
  assume "2 \<le> populated attr"
  then have "IntValue attr \<noteq> None \<or> BoolValue attr \<noteq> None \<or> StringValue attr \<noteq> None"
    by (auto simp add: populated_def split: if_splits)
  then show "\<exists>v. getAttributeValue lib attr = Inr v"
    by (auto simp add: getAttributeValue_def split: option.splits)
next
  assume "IntValue attr = Some i"
  then show "getAttributeValue lib attr = Inr (AnyInt i)"
    by (simp add: getAttributeValue_def)
next
  assume "IntValue attr = None \<and> BoolValue attr = Some b"
  then show "getAttributeValue lib attr = Inr (AnyBool b)"
    by (simp add: getAttributeValue_def)
next
  assume "IntValue attr = None \<and> BoolValue attr = None \<and> StringValue attr = Some s"
  then show "getAttributeValue lib attr = Inr (AnyString s)"
    by (simp add: getAttributeValue_def)
next
  assume "IntValue attr = None \<and> BoolValue attr = None \<and> StringValue attr = None \<and>
    VersionValue attr = Some t"
  then show "getAttributeValue lib attr =
        (case semver_Parse lib t of
           Inl err \<Rightarrow> Inl (''parse semantic version: '' @ err)
         | Inr v \<Rightarrow> Inr (AnySemver v))"
    by (simp add: getAttributeValue_def)
next
  show "getAttributeValue lib attr = Inl ''unsupported attribute value'' \<longleftrightarrow> populated attr = 0"
  proof
    assume "getAttributeValue lib attr = Inl ''unsupported attribute value''"
    then show "populated attr = 0"
      by (auto simp add: getAttributeValue_def populated_def split: option.splits sum.splits)
  next
    assume "populated attr = 0"
    then have "IntValue attr = None" "BoolValue attr = None" "StringValue attr = None"
      "VersionValue attr = None"
      by (auto simp add: populated_def split: if_splits)
    then show "getAttributeValue lib attr = Inl ''unsupported attribute value''"
      by (simp add: getAttributeValue_def)
  qed
qed

theorem getAttributeValue_precedence_witness:
  "getAttributeValue ex_lib
     \<lparr>IntValue = Some 7, BoolValue = None, StringValue = Some ''A100'',
      VersionValue = Some ''not-a-version''\<rparr> = Inr (AnyInt 7) \<and>
   getAttributeValue ex_lib
     \<lparr>IntValue = None, BoolValue = Some True, StringValue = Some ''A100'',
      VersionValue = None\<rparr> = Inr (AnyBool True) \<and>
   getAttributeValue ex_lib
     \<lparr>IntValue = None, BoolValue = None, StringValue = Some ''A100'',
      VersionValue = Some ''1.2.3''\<rparr> = Inr (AnyString ''A100'') \<and>
   getAttributeValue ex_lib
     \<lparr>IntValue = None, BoolValue = None, StringValue = None,
      VersionValue = Some ''1.2.3''\<rparr> = Inr (AnySemver [1, 2, 3]) \<and>
   getAttributeValue ex_lib
     \<lparr>IntValue = None, BoolValue = None, StringValue = None, VersionValue = None\<rparr> =
     Inl ''unsupported attribute value''"
  using
    getAttributeValue_precedence [of
      "\<lparr>IntValue = Some 7, BoolValue = None, StringValue = Some ''A100'',
        VersionValue = Some ''not-a-version''\<rparr>" ex_lib 7]
    getAttributeValue_precedence [of
      "\<lparr>IntValue = None, BoolValue = Some True, StringValue = Some ''A100'',
        VersionValue = None\<rparr>" ex_lib _ True]
    getAttributeValue_precedence [of
      "\<lparr>IntValue = None, BoolValue = None, StringValue = Some ''A100'',
        VersionValue = Some ''1.2.3''\<rparr>" ex_lib _ _ "''A100''"]
    getAttributeValue_precedence [of
      "\<lparr>IntValue = None, BoolValue = None, StringValue = None,
        VersionValue = Some ''1.2.3''\<rparr>" ex_lib _ _ _ "''1.2.3''"]
    getAttributeValue_precedence [of
      "\<lparr>IntValue = None, BoolValue = None, StringValue = None, VersionValue = None\<rparr>" ex_lib]
  by (simp add: populated_def ex_lib_sel)

section \<open>Compilation results\<close>

text \<open>
  C1. Once the environment is loaded and the expression has compiled without issues, a static
  output type that is neither the boolean type nor the any type makes \<^verbatim>\<open>CompileCELExpression\<close>
  return an error of kind Invalid whose detail names the expected and the actual type. When the
  output type is one of the two, this step produces no Invalid error: any error of the result is
  of kind Internal.
\<close>

theorem CompileCELExpression_output_type:
  assumes "envset c (ptr_Deref (EnvType options) StoredExpressions) = Inr env"
    and "env_Compile lib env expression = Inr ast"
  shows "(ast_OutputType lib ast \<noteq> BoolType lib \<and> ast_OutputType lib ast \<noteq> AnyType lib \<longrightarrow>
            Error (CompileCELExpression lib c expression options) =
              Some \<lparr>Type = ErrorTypeInvalid,
                    Detail = ''must evaluate to '' @ Type_String lib (BoolType lib) @
                             '' or the unknown type, not '' @
                             Type_String lib (ast_OutputType lib ast)\<rparr>) \<and>
         (ast_OutputType lib ast = BoolType lib \<or> ast_OutputType lib ast = AnyType lib \<longrightarrow>
            (\<forall>e. Error (CompileCELExpression lib c expression options) = Some e \<longrightarrow>
                 Type e = ErrorTypeInternal))"
  using assms
  by (auto simp add: CompileCELExpression_def resultError_def Let_def
      split: option.splits sum.splits)

theorem CompileCELExpression_output_type_witness:
  "Error (CompileCELExpression ex_lib ex_compiler ''device.driver'' ex_options) =
     Some \<lparr>Type = ErrorTypeInvalid,
           Detail = ''must evaluate to bool or the unknown type, not string''\<rparr> \<and>
   (\<exists>e. Error (CompileCELExpression ex_lib ex_compiler ''device.attributes[d][i]'' ex_options) =
      Some e \<and> Type e = ErrorTypeInternal)"
proof -
  have env: "envset ex_compiler (ptr_Deref (EnvType ex_options) StoredExpressions) =
      Inr StoredExpressions"
    by (simp add: ex_compiler_def ex_options_def ptr_Deref_def)
  have ast: "env_Compile ex_lib StoredExpressions ''device.driver'' = Inr ExString"
    by (simp add: ex_lib_sel)
  have ast': "env_Compile ex_lib StoredExpressions ''device.attributes[d][i]'' = Inr ExAny"
    by (simp add: ex_lib_sel)
  have ty: "ast_OutputType ex_lib ExString \<noteq> BoolType ex_lib \<and>
      ast_OutputType ex_lib ExString \<noteq> AnyType ex_lib"
    by (simp add: ex_lib_sel)
  have ty': "ast_OutputType ex_lib ExAny = BoolType ex_lib \<or>
      ast_OutputType ex_lib ExAny = AnyType ex_lib"
    by (simp add: ex_lib_sel)
  have names: "Type_String ex_lib (BoolType ex_lib) = ''bool''"
    "Type_String ex_lib (ast_OutputType ex_lib ExString) = ''string''"
    by (simp_all add: ex_lib_sel)
  from CompileCELExpression_output_type [OF env ast] ty
  have "Error (CompileCELExpression ex_lib ex_compiler ''device.driver'' ex_options) =
     Some \<lparr>Type = ErrorTypeInvalid,
           Detail = ''must evaluate to '' @ Type_String ex_lib (BoolType ex_lib) @
                    '' or the unknown type, not '' @
                    Type_String ex_lib (ast_OutputType ex_lib ExString)\<rparr>"
    by blast
  then have "Error (CompileCELExpression ex_lib ex_compiler ''device.driver'' ex_options) =
     Some \<lparr>Type = ErrorTypeInvalid,
           Detail = ''must evaluate to bool or the unknown type, not string''\<rparr>"
    by (simp add: names)
  moreover have
    "\<exists>e. Error (CompileCELExpression ex_lib ex_compiler ''device.attributes[d][i]'' ex_options) =
       Some e"
    by (simp add: CompileCELExpression_def ex_lib_sel ex_compiler_def ex_options_def
        ptr_Deref_def)
  then obtain e where
    e: "Error (CompileCELExpression ex_lib ex_compiler ''device.attributes[d][i]'' ex_options) =
       Some e" ..
  from CompileCELExpression_output_type [OF env ast'] ty' e
  have "Type e = ErrorTypeInternal"
    by blast
  with e have
    "\<exists>e. Error (CompileCELExpression ex_lib ex_compiler ''device.attributes[d][i]'' ex_options) =
       Some e \<and> Type e = ErrorTypeInternal"
    by blast
  ultimately show ?thesis by simp
qed

lemma CompileCELExpression_checked:
  assumes "envset c (ptr_Deref (EnvType options) StoredExpressions) = Inr env"
    and "env_Compile lib env expression = Inr ast"
    and "ast_OutputType lib ast = BoolType lib \<or> ast_OutputType lib ast = AnyType lib"
    and "Error (CompileCELExpression lib c expression options) = Some e"
  shows "Type e = ErrorTypeInternal"
proof (cases "AstToCheckedExpr lib ast")
  case (Some err)
  with assms show ?thesis
    by (auto simp add: CompileCELExpression_def resultError_def)
next
  case None
  show ?thesis
  proof (cases "env_Program lib env ast
           [cel_CostLimit (ptr_Deref (CostLimit options) (CELSelectorExpressionMaxCost lib)),
            cel_InterruptCheckFrequency (CheckFrequency lib)]")
    case (Inl err)
    with None assms show ?thesis
      by (auto simp add: CompileCELExpression_def resultError_def)
  next
    case (Inr prog)
    with None assms show ?thesis
      by (cases "env_EstimateCost lib env ast")
        (auto simp add: CompileCELExpression_def resultError_def)
  qed
qed

text \<open>
  C5. A result of \<^verbatim>\<open>CompileCELExpression\<close> whose error is of kind Invalid carries no program: it
  consists of the error and the echoed expression text, every other field being empty. Such an
  error comes from the compilation issues (syntax or type errors) or from the output type check.
\<close>

theorem CompileCELExpression_invalid_no_program:
  assumes "Error (CompileCELExpression lib c expression options) = Some e"
    and "Type e = ErrorTypeInvalid"
  shows "CompileCELExpression lib c expression options =
           \<lparr>Program = None, Error = Some e, Expression = expression, OutputType = None,
            Environment = None, MaxCost = 0, emptyMapVal = None\<rparr> \<and>
         (\<exists>env. envset c (ptr_Deref (EnvType options) StoredExpressions) = Inr env \<and>
            ((\<exists>issues. env_Compile lib env expression = Inl issues \<and>
                Detail e = ''compilation failed: '' @ issues) \<or>
             (\<exists>ast. env_Compile lib env expression = Inr ast \<and>
                ast_OutputType lib ast \<noteq> BoolType lib \<and> ast_OutputType lib ast \<noteq> AnyType lib)))"
proof (cases "envset c (ptr_Deref (EnvType options) StoredExpressions)")
  case (Inl err)
  with assms show ?thesis
    by (auto simp add: CompileCELExpression_def resultError_def)
next
  case env: (Inr env)
  show ?thesis
  proof (cases "env_Compile lib env expression")
    case (Inl issues)
    with env assms show ?thesis
      by (auto simp add: CompileCELExpression_def resultError_def)
  next
    case ast: (Inr ast)
    show ?thesis
    proof (cases "ast_OutputType lib ast = BoolType lib \<or> ast_OutputType lib ast = AnyType lib")
      case True
      from CompileCELExpression_checked [OF env ast True assms(1)] assms(2)
      show ?thesis by simp
    next
      case False
      with env ast assms show ?thesis
        by (auto simp add: CompileCELExpression_def resultError_def)
    qed
  qed
qed

theorem CompileCELExpression_invalid_no_program_witness:
  "CompileCELExpression ex_lib ex_compiler ''device.'' ex_options =
     \<lparr>Program = None,
      Error = Some \<lparr>Type = ErrorTypeInvalid,
                    Detail = ''compilation failed: ERROR: <input>:1:1: Syntax error''\<rparr>,
      Expression = ''device.'', OutputType = None,
      Environment = None, MaxCost = 0, emptyMapVal = None\<rparr>"
proof -
  have err: "Error (CompileCELExpression ex_lib ex_compiler ''device.'' ex_options) =
      Some \<lparr>Type = ErrorTypeInvalid,
            Detail = ''compilation failed: ERROR: <input>:1:1: Syntax error''\<rparr>"
    by (simp add: CompileCELExpression_def resultError_def ex_lib_sel ex_compiler_def)
  show ?thesis
    using CompileCELExpression_invalid_no_program [OF err] by simp
qed

text \<open>
  C6. When compilation succeeds up to and including program instantiation and the cost estimate
  fails, \<^verbatim>\<open>CompileCELExpression\<close> returns the program handle, the output type and the
  environment together with an error of kind Internal, and \<^verbatim>\<open>MaxCost\<close> is zero.
\<close>

theorem CompileCELExpression_cost_estimation_failure:
  assumes "envset c (ptr_Deref (EnvType options) StoredExpressions) = Inr env"
    and "env_Compile lib env expression = Inr ast"
    and "ast_OutputType lib ast = BoolType lib \<or> ast_OutputType lib ast = AnyType lib"
    and "AstToCheckedExpr lib ast = None"
    and "env_Program lib env ast
           [cel_CostLimit (ptr_Deref (CostLimit options) (CELSelectorExpressionMaxCost lib)),
            cel_InterruptCheckFrequency (CheckFrequency lib)] = Inr prog"
    and "env_EstimateCost lib env ast = Inl err"
  shows "CompileCELExpression lib c expression options =
           \<lparr>Program = Some prog,
            Error = Some \<lparr>Type = ErrorTypeInternal, Detail = ''cost estimation failed: '' @ err\<rparr>,
            Expression = expression,
            OutputType = Some (ast_OutputType lib ast),
            Environment = Some env,
            MaxCost = 0,
            emptyMapVal = Some (env_CELTypeAdapter lib env (AnyMap Map.empty))\<rparr>"
  using assms
  by (auto simp add: CompileCELExpression_def resultError_def Let_def)

theorem CompileCELExpression_cost_estimation_failure_witness:
  "CompileCELExpression ex_lib ex_compiler ''device.attributes[d][i]'' ex_options =
     \<lparr>Program = Some ExAny,
      Error = Some \<lparr>Type = ErrorTypeInternal,
                    Detail = ''cost estimation failed: unsupported expression''\<rparr>,
      Expression = ''device.attributes[d][i]'',
      OutputType = Some ExAny,
      Environment = Some StoredExpressions,
      MaxCost = 0,
      emptyMapVal = Some (ExValMap Map.empty)\<rparr>"
proof -
  have env: "envset ex_compiler (ptr_Deref (EnvType ex_options) StoredExpressions) =
      Inr StoredExpressions"
    by (simp add: ex_compiler_def ex_options_def ptr_Deref_def)
  have ast: "env_Compile ex_lib StoredExpressions ''device.attributes[d][i]'' = Inr ExAny"
    by (simp add: ex_lib_sel)
  have ty: "ast_OutputType ex_lib ExAny = BoolType ex_lib \<or>
      ast_OutputType ex_lib ExAny = AnyType ex_lib"
    by (simp add: ex_lib_sel)
  have chk: "AstToCheckedExpr ex_lib ExAny = None"
    by (simp add: ex_lib_sel)
  have prog: "env_Program ex_lib StoredExpressions ExAny
      [cel_CostLimit (ptr_Deref (CostLimit ex_options) (CELSelectorExpressionMaxCost ex_lib)),
       cel_InterruptCheckFrequency (CheckFrequency ex_lib)] = Inr ExAny"
    by (simp add: ex_lib_sel)
  have cost: "env_EstimateCost ex_lib StoredExpressions ExAny = Inl ''unsupported expression''"
    by (simp add: ex_lib_sel)
  show ?thesis
    using CompileCELExpression_cost_estimation_failure [OF env ast ty chk prog cost]
    by (simp add: ex_lib_sel)
qed

section \<open>The two loops of DeviceMatches\<close>

lemma getAttributeValue_scalar: "getAttributeValue lib attr = Inr w \<Longrightarrow> is_scalar w"
  by (auto simp add: getAttributeValue_def split: option.splits sum.splits)

lemma only_maps_empty: "only_maps Map.empty"
  by (simp add: only_maps_def)

lemma only_maps_upd: "only_maps A \<Longrightarrow> only_maps (A(d \<mapsto> AnyMap m))"
  by (simp add: only_maps_def)

lemma attributes_step:
  assumes "only_maps A"
  shows "DeviceMatches_attributes lib driver ((name, attr) # rest) A =
     (case getAttributeValue lib attr of
        Inl err \<Rightarrow> Inr (Inl (''attribute '' @ name @ '': '' @ err))
      | Inr value \<Rightarrow>
          DeviceMatches_attributes lib driver rest
            (A(fst (parseQualifiedName name driver) \<mapsto>
               AnyMap ((inner_of (A (fst (parseQualifiedName name driver))))
                 (snd (parseQualifiedName name driver) \<mapsto> value)))))"
proof -
  obtain domain ident where pq: "parseQualifiedName name driver = (domain, ident)"
    by (cases "parseQualifiedName name driver")
  show ?thesis
  proof (cases "A domain")
    case None
    then show ?thesis
      by (simp add: pq inner_of_def DeviceMatches_attributes.simps(2) split: sum.splits)
  next
    case (Some v)
    with assms obtain inner where "v = AnyMap inner"
      by (auto simp add: only_maps_def)
    with Some show ?thesis
      by (simp add: pq inner_of_def DeviceMatches_attributes.simps(2) split: sum.splits)
  qed
qed

lemma attributes_no_panic:
  "only_maps A \<Longrightarrow> DeviceMatches_attributes lib driver attrs A \<noteq> Inl p"
proof (induction attrs arbitrary: A)
  case Nil
  show ?case by simp
next
  case (Cons x attrs)
  obtain name attr where x: "x = (name, attr)" by (cases x)
  note om = Cons.prems
  show ?case
  proof (cases "getAttributeValue lib attr")
    case (Inl err)
    then show ?thesis by (simp add: x attributes_step [OF om])
  next
    case (Inr val)
    let ?A = "A(fst (parseQualifiedName name driver) \<mapsto>
               AnyMap ((inner_of (A (fst (parseQualifiedName name driver))))
                 (snd (parseQualifiedName name driver) \<mapsto> val)))"
    have "only_maps ?A" by (rule only_maps_upd [OF om])
    then have "DeviceMatches_attributes lib driver attrs ?A \<noteq> Inl p" by (rule Cons.IH)
    then show ?thesis
      by (simp only: x attributes_step [OF om] Inr sum.case) simp
  qed
qed

lemma attributes_first_error:
  assumes "only_maps A" and "(name0, attr0) \<in> set attrs"
    and "getAttributeValue lib attr0 = Inl e0"
  shows "\<exists>name attr err. (name, attr) \<in> set attrs \<and> getAttributeValue lib attr = Inl err \<and>
           DeviceMatches_attributes lib driver attrs A =
             Inr (Inl (''attribute '' @ name @ '': '' @ err))"
  using assms
proof (induction attrs arbitrary: A)
  case Nil
  then show ?case by simp
next
  case (Cons x attrs)
  obtain name attr where x: "x = (name, attr)" by (cases x)
  note om = Cons.prems(1)
  show ?case
  proof (cases "getAttributeValue lib attr")
    case (Inl err)
    then have "DeviceMatches_attributes lib driver (x # attrs) A =
        Inr (Inl (''attribute '' @ name @ '': '' @ err))"
      by (simp add: x attributes_step [OF om])
    with Inl show ?thesis unfolding x by auto
  next
    case (Inr val)
    with Cons.prems x have mem: "(name0, attr0) \<in> set attrs" by auto
    let ?A = "A(fst (parseQualifiedName name driver) \<mapsto>
               AnyMap ((inner_of (A (fst (parseQualifiedName name driver))))
                 (snd (parseQualifiedName name driver) \<mapsto> val)))"
    have "only_maps ?A" by (rule only_maps_upd [OF om])
    from Cons.IH [OF this mem Cons.prems(3)]
    obtain n a e where "(n, a) \<in> set attrs" "getAttributeValue lib a = Inl e"
      "DeviceMatches_attributes lib driver attrs ?A = Inr (Inl (''attribute '' @ n @ '': '' @ e))"
      by blast
    then show ?thesis
      unfolding x using Inr by (auto simp add: attributes_step [OF om])
  qed
qed

lemma attributes_error_only:
  assumes "only_maps A"
    and "DeviceMatches_attributes lib driver attrs A = Inr (Inl msg)"
  shows "\<exists>name attr err. (name, attr) \<in> set attrs \<and> getAttributeValue lib attr = Inl err \<and>
           msg = ''attribute '' @ name @ '': '' @ err"
  using assms
proof (induction attrs arbitrary: A)
  case Nil
  then show ?case by simp
next
  case (Cons x attrs)
  obtain name attr where x: "x = (name, attr)" by (cases x)
  note om = Cons.prems(1)
  show ?case
  proof (cases "getAttributeValue lib attr")
    case (Inl err)
    with Cons.prems show ?thesis
      unfolding x by (auto simp add: attributes_step [OF om])
  next
    case (Inr val)
    let ?A = "A(fst (parseQualifiedName name driver) \<mapsto>
               AnyMap ((inner_of (A (fst (parseQualifiedName name driver))))
                 (snd (parseQualifiedName name driver) \<mapsto> val)))"
    have om': "only_maps ?A" by (rule only_maps_upd [OF om])
    have "DeviceMatches_attributes lib driver attrs ?A = Inr (Inl msg)"
      using Cons.prems(2) Inr unfolding x by (simp add: attributes_step [OF om])
    from Cons.IH [OF om' this] show ?thesis unfolding x by auto
  qed
qed


lemma inner_of_upd:
  "inner_of ((A(dom \<mapsto> AnyMap m)) d) = (if d = dom then m else inner_of (A d))"
  by (simp add: inner_of_def)

lemma inner_of_simps [simp]:
  "inner_of (Some (AnyMap m)) = m" "inner_of None = Map.empty"
  by (simp_all add: inner_of_def)

lemma inner_of_only_maps:
  assumes "only_maps R" and "R d = Some v"
  shows "v = AnyMap (inner_of (R d))"
proof -
  from assms obtain inner where "v = AnyMap inner"
    by (auto simp add: only_maps_def)
  with assms(2) show ?thesis by simp
qed

lemma attributes_result_only_maps:
  assumes "only_maps A" and "DeviceMatches_attributes lib driver attrs A = Inr (Inr R)"
  shows "only_maps R"
  using assms
proof (induction attrs arbitrary: A)
  case Nil
  then show ?case by simp
next
  case (Cons x attrs)
  obtain name attr where x: "x = (name, attr)" by (cases x)
  note om = Cons.prems(1)
  from Cons.prems(2) obtain val where val: "getAttributeValue lib attr = Inr val"
    unfolding x by (auto simp add: attributes_step [OF om] split: sum.splits)
  let ?A = "A(fst (parseQualifiedName name driver) \<mapsto>
             AnyMap ((inner_of (A (fst (parseQualifiedName name driver))))
               (snd (parseQualifiedName name driver) \<mapsto> val)))"
  have om': "only_maps ?A" by (rule only_maps_upd [OF om])
  have "DeviceMatches_attributes lib driver attrs ?A = Inr (Inr R)"
    using Cons.prems(2) val unfolding x by (simp add: attributes_step [OF om])
  from Cons.IH [OF om' this] show ?case .
qed

lemma attributes_result_domains:
  assumes "only_maps A" and "DeviceMatches_attributes lib driver attrs A = Inr (Inr R)"
  shows "(R d \<noteq> None) =
           (A d \<noteq> None \<or> (\<exists>(name, attr) \<in> set attrs. fst (parseQualifiedName name driver) = d))"
  using assms
proof (induction attrs arbitrary: A)
  case Nil
  then show ?case by simp
next
  case (Cons x attrs)
  obtain name attr where x: "x = (name, attr)" by (cases x)
  note om = Cons.prems(1)
  from Cons.prems(2) obtain val where val: "getAttributeValue lib attr = Inr val"
    unfolding x by (auto simp add: attributes_step [OF om] split: sum.splits)
  let ?A = "A(fst (parseQualifiedName name driver) \<mapsto>
             AnyMap ((inner_of (A (fst (parseQualifiedName name driver))))
               (snd (parseQualifiedName name driver) \<mapsto> val)))"
  have om': "only_maps ?A" by (rule only_maps_upd [OF om])
  have "DeviceMatches_attributes lib driver attrs ?A = Inr (Inr R)"
    using Cons.prems(2) val unfolding x by (simp add: attributes_step [OF om])
  from Cons.IH [OF om' this] show ?case unfolding x by auto
qed

lemma attributes_result_identifiers:
  assumes "only_maps A" and "DeviceMatches_attributes lib driver attrs A = Inr (Inr R)"
  shows "(inner_of (R d) i \<noteq> None) =
           (inner_of (A d) i \<noteq> None \<or>
            (\<exists>(name, attr) \<in> set attrs. parseQualifiedName name driver = (d, i)))"
  using assms
proof (induction attrs arbitrary: A)
  case Nil
  then show ?case by simp
next
  case (Cons x attrs)
  obtain name attr where x: "x = (name, attr)" by (cases x)
  note om = Cons.prems(1)
  from Cons.prems(2) obtain val where val: "getAttributeValue lib attr = Inr val"
    unfolding x by (auto simp add: attributes_step [OF om] split: sum.splits)
  let ?A = "A(fst (parseQualifiedName name driver) \<mapsto>
             AnyMap ((inner_of (A (fst (parseQualifiedName name driver))))
               (snd (parseQualifiedName name driver) \<mapsto> val)))"
  have om': "only_maps ?A" by (rule only_maps_upd [OF om])
  have "DeviceMatches_attributes lib driver attrs ?A = Inr (Inr R)"
    using Cons.prems(2) val unfolding x by (simp add: attributes_step [OF om])
  from Cons.IH [OF om' this] show ?case
    unfolding x inner_of_upd by (cases "parseQualifiedName name driver") auto
qed

lemma attributes_result_values:
  assumes "only_maps A" and "DeviceMatches_attributes lib driver attrs A = Inr (Inr R)"
    and "inner_of (R d) i = Some w"
  shows "inner_of (A d) i = Some w \<or>
         (\<exists>(name, attr) \<in> set attrs.
            parseQualifiedName name driver = (d, i) \<and> getAttributeValue lib attr = Inr w)"
  using assms
proof (induction attrs arbitrary: A)
  case Nil
  then show ?case by simp
next
  case (Cons x attrs)
  obtain name attr where x: "x = (name, attr)" by (cases x)
  note om = Cons.prems(1)
  from Cons.prems(2) obtain val where val: "getAttributeValue lib attr = Inr val"
    unfolding x by (auto simp add: attributes_step [OF om] split: sum.splits)
  let ?A = "A(fst (parseQualifiedName name driver) \<mapsto>
             AnyMap ((inner_of (A (fst (parseQualifiedName name driver))))
               (snd (parseQualifiedName name driver) \<mapsto> val)))"
  have om': "only_maps ?A" by (rule only_maps_upd [OF om])
  have "DeviceMatches_attributes lib driver attrs ?A = Inr (Inr R)"
    using Cons.prems(2) val unfolding x by (simp add: attributes_step [OF om])
  from Cons.IH [OF om' this Cons.prems(3)] val show ?case
    unfolding x inner_of_upd
    by (cases "parseQualifiedName name driver") (auto split: if_splits)
qed


lemma only_quantity_maps_empty: "only_quantity_maps Map.empty"
  by (simp add: only_quantity_maps_def)

lemma only_quantity_maps_upd:
  "only_quantity_maps A \<Longrightarrow> only_quantity_maps (A(d \<mapsto> AnyQuantityMap m))"
  by (simp add: only_quantity_maps_def)

lemma quantities_of_simps [simp]:
  "quantities_of (Some (AnyQuantityMap m)) = m" "quantities_of None = Map.empty"
  by (simp_all add: quantities_of_def)

lemma quantities_of_only_maps:
  assumes "only_quantity_maps R" and "R d = Some v"
  shows "v = AnyQuantityMap (quantities_of (R d))"
proof -
  from assms obtain inner where "v = AnyQuantityMap inner"
    by (auto simp add: only_quantity_maps_def)
  with assms(2) show ?thesis by simp
qed

lemma capacity_step:
  assumes "only_quantity_maps A"
  shows "DeviceMatches_capacity driver ((name, cap) # rest) A =
     DeviceMatches_capacity driver rest
       (A(fst (parseQualifiedName name driver) \<mapsto>
          AnyQuantityMap ((quantities_of (A (fst (parseQualifiedName name driver))))
            (snd (parseQualifiedName name driver) \<mapsto> Value cap))))"
proof -
  obtain domain ident where pq: "parseQualifiedName name driver = (domain, ident)"
    by (cases "parseQualifiedName name driver")
  show ?thesis
  proof (cases "A domain")
    case None
    then show ?thesis
      by (simp add: pq DeviceMatches_capacity.simps(2))
  next
    case (Some v)
    with assms obtain inner where "v = AnyQuantityMap inner"
      by (auto simp add: only_quantity_maps_def)
    with Some show ?thesis
      by (simp add: pq DeviceMatches_capacity.simps(2))
  qed
qed

lemma capacity_result:
  assumes "only_quantity_maps A"
  shows "\<exists>R. DeviceMatches_capacity driver caps A = Inr R \<and> only_quantity_maps R \<and>
           (\<forall>d. (R d \<noteq> None) =
              (A d \<noteq> None \<or>
               (\<exists>(name, cap) \<in> set caps. fst (parseQualifiedName name driver) = d))) \<and>
           (\<forall>d i. (quantities_of (R d) i \<noteq> None) =
              (quantities_of (A d) i \<noteq> None \<or>
               (\<exists>(name, cap) \<in> set caps. parseQualifiedName name driver = (d, i)))) \<and>
           (\<forall>d i w. quantities_of (R d) i = Some w \<longrightarrow>
              quantities_of (A d) i = Some w \<or>
              (\<exists>(name, cap) \<in> set caps.
                 parseQualifiedName name driver = (d, i) \<and> Value cap = w))"
  using assms
proof (induction caps arbitrary: A)
  case Nil
  then show ?case by simp
next
  case (Cons x caps)
  obtain name cap where x: "x = (name, cap)" by (cases x)
  obtain domain ident where pq: "parseQualifiedName name driver = (domain, ident)"
    by (cases "parseQualifiedName name driver")
  note om = Cons.prems
  let ?A = "A(domain \<mapsto> AnyQuantityMap ((quantities_of (A domain))(ident \<mapsto> Value cap)))"
  have step: "DeviceMatches_capacity driver (x # caps) A = DeviceMatches_capacity driver caps ?A"
    using capacity_step [OF om, of driver name cap caps] by (simp add: x pq)
  have om': "only_quantity_maps ?A" by (rule only_quantity_maps_upd [OF om])
  from Cons.IH [OF om'] obtain R where
    R: "DeviceMatches_capacity driver caps ?A = Inr R" and
    Rm: "only_quantity_maps R" and
    Rd: "\<And>d. (R d \<noteq> None) =
           (?A d \<noteq> None \<or> (\<exists>(name, cap) \<in> set caps. fst (parseQualifiedName name driver) = d))" and
    Ri: "\<And>d i. (quantities_of (R d) i \<noteq> None) =
           (quantities_of (?A d) i \<noteq> None \<or>
            (\<exists>(name, cap) \<in> set caps. parseQualifiedName name driver = (d, i)))" and
    Rv: "\<And>d i w. quantities_of (R d) i = Some w \<Longrightarrow>
           quantities_of (?A d) i = Some w \<or>
           (\<exists>(name, cap) \<in> set caps. parseQualifiedName name driver = (d, i) \<and> Value cap = w)"
    by blast
  have d: "\<forall>d. (R d \<noteq> None) =
      (A d \<noteq> None \<or> (\<exists>(name, cap) \<in> set (x # caps). fst (parseQualifiedName name driver) = d))"
    using Rd by (auto simp add: x pq)
  have i: "\<forall>d i. (quantities_of (R d) i \<noteq> None) =
      (quantities_of (A d) i \<noteq> None \<or>
       (\<exists>(name, cap) \<in> set (x # caps). parseQualifiedName name driver = (d, i)))"
    using Ri by (auto simp add: x pq)
  have v: "\<forall>d i w. quantities_of (R d) i = Some w \<longrightarrow>
      quantities_of (A d) i = Some w \<or>
      (\<exists>(name, cap) \<in> set (x # caps). parseQualifiedName name driver = (d, i) \<and> Value cap = w)"
  proof (intro allI impI)
    fix d i w
    assume "quantities_of (R d) i = Some w"
    from Rv [OF this] show "quantities_of (A d) i = Some w \<or>
      (\<exists>(name, cap) \<in> set (x # caps). parseQualifiedName name driver = (d, i) \<and> Value cap = w)"
      by (auto simp add: x pq split: if_splits)
  qed
  have "DeviceMatches_capacity driver (x # caps) A = Inr R"
    using step R by simp
  then show ?case
    using Rm d i v by (intro exI [of _ R] conjI)
qed

lemma getAttributeValue_failure:
  assumes "getAttributeValue lib attr = Inl err"
  shows "(populated attr = 0 \<and> err = ''unsupported attribute value'') \<or>
         (\<exists>t e. IntValue attr = None \<and> BoolValue attr = None \<and> StringValue attr = None \<and>
            VersionValue attr = Some t \<and> semver_Parse lib t = Inl e \<and>
            err = ''parse semantic version: '' @ e)"
  using assms
  by (auto simp add: getAttributeValue_def populated_def split: option.splits sum.splits)

lemma attributes_total:
  assumes "only_maps A"
    and "\<forall>(name, attr) \<in> set attrs. \<exists>v. getAttributeValue lib attr = Inr v"
  shows "\<exists>R. DeviceMatches_attributes lib driver attrs A = Inr (Inr R)"
proof (cases "DeviceMatches_attributes lib driver attrs A")
  case (Inl p)
  with attributes_no_panic [OF assms(1)] show ?thesis by blast
next
  case (Inr r)
  show ?thesis
  proof (cases r)
    case (Inl msg)
    with Inr attributes_error_only [OF assms(1), of lib driver attrs msg] assms(2)
    show ?thesis by fastforce
  next
    case (Inr R)
    with \<open>DeviceMatches_attributes lib driver attrs A = Inr r\<close> show ?thesis by simp
  qed
qed

lemma ex_parse:
  "parseQualifiedName ''model'' ''gpu.example.com'' = (''gpu.example.com'', ''model'')"
  "parseQualifiedName ''vendor.example/tier'' ''gpu.example.com'' = (''vendor.example'', ''tier'')"
  "parseQualifiedName ''vendor.example/firmware'' ''gpu.example.com'' =
     (''vendor.example'', ''firmware'')"
  "parseQualifiedName ''memory'' ''gpu.example.com'' = (''gpu.example.com'', ''memory'')"
  by code_simp+

lemma ex_attributes:
  "DeviceMatches_attributes ex_lib (Driver ex_device) (Attributes ex_device) Map.empty =
     Inr (Inr [''gpu.example.com'' \<mapsto> AnyMap [''model'' \<mapsto> AnyString ''A100''],
               ''vendor.example'' \<mapsto> AnyMap [''tier'' \<mapsto> AnyInt 3]])"
  by (simp add: ex_device_def DeviceMatches_attributes.simps(2) getAttributeValue_def ex_parse)

lemma ex_capacity:
  "DeviceMatches_capacity (Driver ex_device) (Capacity ex_device) Map.empty =
     Inr [''gpu.example.com'' \<mapsto> AnyQuantityMap [''memory'' \<mapsto> 16]]"
  by (simp add: ex_device_def DeviceMatches_capacity.simps(2) ex_parse)

section \<open>DeviceMatches\<close>

text \<open>
  C3. If the value of at least one attribute of the device cannot be resolved, \<^verbatim>\<open>DeviceMatches\<close>
  returns \<^verbatim>\<open>false\<close>, no details and an error that names an attribute whose resolution fails,
  followed by the reason; it neither skips the attribute nor panics, whatever the compilation
  result holds. Resolution fails only when no variant is populated or when the version text does
  not parse.
\<close>

theorem DeviceMatches_attribute_error:
  assumes "(name0, attr0) \<in> set (Attributes input)"
    and "getAttributeValue lib attr0 = Inl e0"
  shows "\<exists>name attr err. (name, attr) \<in> set (Attributes input) \<and>
           getAttributeValue lib attr = Inl err \<and>
           ((populated attr = 0 \<and> err = ''unsupported attribute value'') \<or>
            (\<exists>t e. IntValue attr = None \<and> BoolValue attr = None \<and> StringValue attr = None \<and>
               VersionValue attr = Some t \<and> semver_Parse lib t = Inl e \<and>
               err = ''parse semantic version: '' @ e)) \<and>
           DeviceMatches lib c ctx input =
             Inr (False, None, Some (''attribute '' @ name @ '': '' @ err))"
proof -
  from attributes_first_error [OF only_maps_empty assms]
  obtain name attr err where found: "(name, attr) \<in> set (Attributes input)"
    "getAttributeValue lib attr = Inl err"
    "DeviceMatches_attributes lib (Driver input) (Attributes input) Map.empty =
       Inr (Inl (''attribute '' @ name @ '': '' @ err))"
    by blast
  have "DeviceMatches lib c ctx input =
      Inr (False, None, Some (''attribute '' @ name @ '': '' @ err))"
    by (simp add: DeviceMatches_def found(3))
  with found(1,2) getAttributeValue_failure [OF found(2)] show ?thesis
    by blast
qed

theorem DeviceMatches_attribute_error_witness:
  "(\<exists>name attr err. (name, attr) \<in> set (Attributes ex_bad_device) \<and>
      getAttributeValue ex_lib attr = Inl err \<and>
      DeviceMatches ex_lib (ex_result ExBool) () ex_bad_device =
        Inr (False, None, Some (''attribute '' @ name @ '': '' @ err))) \<and>
   DeviceMatches ex_lib (ex_result ExBool) () ex_bad_device =
     Inr (False, None,
          Some ''attribute vendor.example/firmware: parse semantic version: No Major.Minor.Patch elements found'')"
proof -
  have mem: "(''empty'', \<lparr>IntValue = None, BoolValue = None, StringValue = None,
      VersionValue = None\<rparr>) \<in> set (Attributes ex_bad_device)"
    by (simp add: ex_bad_device_def)
  have fails: "getAttributeValue ex_lib \<lparr>IntValue = None, BoolValue = None, StringValue = None,
      VersionValue = None\<rparr> = Inl ''unsupported attribute value''"
    by (simp add: getAttributeValue_def)
  have run: "DeviceMatches ex_lib (ex_result ExBool) () ex_bad_device =
     Inr (False, None,
          Some ''attribute vendor.example/firmware: parse semantic version: No Major.Minor.Patch elements found'')"
    by (simp add: DeviceMatches_def ex_bad_device_def DeviceMatches_attributes.simps(2)
        getAttributeValue_def ex_parse ex_lib_sel)
  from DeviceMatches_attribute_error [OF mem fails, of "ex_result ExBool" "()"]
  have "\<exists>name attr err. (name, attr) \<in> set (Attributes ex_bad_device) \<and>
      getAttributeValue ex_lib attr = Inl err \<and>
      DeviceMatches ex_lib (ex_result ExBool) () ex_bad_device =
        Inr (False, None, Some (''attribute '' @ name @ '': '' @ err))"
    by blast
  then show ?thesis using run by (rule conjI)
qed

text \<open>
  C8. For a device all of whose attributes resolve, both loops of \<^verbatim>\<open>DeviceMatches\<close> finish
  without a panic, and the maps they hand to the lookup wrapper have two levels: every value of
  the outer map is a non-empty inner map, whose values are scalars (attributes) or quantities
  (capacity). A domain is a key of the outer map exactly when some entry of the device parses to
  that domain, and an identifier is a key of the inner map exactly when some entry parses to
  that domain and identifier.
\<close>

theorem DeviceMatches_maps_two_levels:
  fixes lib :: "('env, 'ast, 'prog, 'ty, 'v, 'details, 'ctx, 'sv, 'q) cel"
  assumes "\<forall>(name, attr) \<in> set (Attributes input). \<exists>v. getAttributeValue lib attr = Inr v"
  shows "\<exists>attributes capacity.
     DeviceMatches_attributes lib (Driver input) (Attributes input) Map.empty =
       Inr (Inr attributes) \<and>
     DeviceMatches_capacity (Driver input) (Capacity input) Map.empty = Inr capacity \<and>
     DeviceMatches lib c ctx input = DeviceMatches_eval lib c ctx input attributes capacity \<and>
     (\<forall>domain. (attributes domain \<noteq> None) =
        (\<exists>(name, attr) \<in> set (Attributes input).
           fst (parseQualifiedName name (Driver input)) = domain)) \<and>
     (\<forall>domain v. attributes domain = Some v \<longrightarrow>
        (\<exists>inner. v = AnyMap inner \<and> inner \<noteq> Map.empty \<and>
           (\<forall>ident. (inner ident \<noteq> None) =
              (\<exists>(name, attr) \<in> set (Attributes input).
                 parseQualifiedName name (Driver input) = (domain, ident))) \<and>
           (\<forall>ident w. inner ident = Some w \<longrightarrow> is_scalar w))) \<and>
     (\<forall>domain. (capacity domain \<noteq> None) =
        (\<exists>(name, cap) \<in> set (Capacity input).
           fst (parseQualifiedName name (Driver input)) = domain)) \<and>
     (\<forall>domain v. capacity domain = Some v \<longrightarrow>
        (\<exists>inner. v = AnyQuantityMap inner \<and> inner \<noteq> Map.empty \<and>
           (\<forall>ident. (inner ident \<noteq> None) =
              (\<exists>(name, cap) \<in> set (Capacity input).
                 parseQualifiedName name (Driver input) = (domain, ident)))))"
proof -
  let ?driver = "Driver input"
  from attributes_total [OF only_maps_empty assms] obtain A where
    A: "DeviceMatches_attributes lib ?driver (Attributes input) Map.empty = Inr (Inr A)"
    by blast
  note Am = attributes_result_only_maps [OF only_maps_empty A]
  have Ad: "\<And>d. (A d \<noteq> None) =
      (\<exists>(name, attr) \<in> set (Attributes input). fst (parseQualifiedName name ?driver) = d)"
    using attributes_result_domains [OF only_maps_empty A] by simp
  have Ai: "\<And>d i. (inner_of (A d) i \<noteq> None) =
      (\<exists>(name, attr) \<in> set (Attributes input). parseQualifiedName name ?driver = (d, i))"
    using attributes_result_identifiers [OF only_maps_empty A] by simp
  have Av: "\<And>d i w. inner_of (A d) i = Some w \<Longrightarrow> is_scalar w"
    using attributes_result_values [OF only_maps_empty A] getAttributeValue_scalar
    by fastforce
  let ?empty = "Map.empty :: string \<Rightarrow> ('sv, 'q, 'v) any option"
  have "only_quantity_maps ?empty" by (rule only_quantity_maps_empty)
  from capacity_result [OF this, of ?driver "Capacity input"] obtain C where
    C: "DeviceMatches_capacity ?driver (Capacity input) ?empty = Inr C" and
    Cm: "only_quantity_maps C" and
    Cd0: "\<forall>d. (C d \<noteq> None) =
      (?empty d \<noteq> None \<or>
       (\<exists>(name, cap) \<in> set (Capacity input). fst (parseQualifiedName name ?driver) = d))" and
    Ci0: "\<forall>d i. (quantities_of (C d) i \<noteq> None) =
      (quantities_of (?empty d) i \<noteq> None \<or>
       (\<exists>(name, cap) \<in> set (Capacity input). parseQualifiedName name ?driver = (d, i)))"
    by blast
  have Cd: "\<And>d. (C d \<noteq> None) =
      (\<exists>(name, cap) \<in> set (Capacity input). fst (parseQualifiedName name ?driver) = d)"
    using Cd0 by simp
  have Ci: "\<And>d i. (quantities_of (C d) i \<noteq> None) =
      (\<exists>(name, cap) \<in> set (Capacity input). parseQualifiedName name ?driver = (d, i))"
    using Ci0 by simp
  have run: "DeviceMatches lib c ctx input = DeviceMatches_eval lib c ctx input A C"
    by (simp add: DeviceMatches_def A C)
  have Alev: "\<forall>domain v. A domain = Some v \<longrightarrow>
        (\<exists>inner. v = AnyMap inner \<and> inner \<noteq> Map.empty \<and>
           (\<forall>ident. (inner ident \<noteq> None) =
              (\<exists>(name, attr) \<in> set (Attributes input).
                 parseQualifiedName name ?driver = (domain, ident))) \<and>
           (\<forall>ident w. inner ident = Some w \<longrightarrow> is_scalar w))"
  proof (intro allI impI)
    fix domain v
    assume v: "A domain = Some v"
    then have "A domain \<noteq> None" by simp
    then obtain name attr where na: "(name, attr) \<in> set (Attributes input)"
      "fst (parseQualifiedName name ?driver) = domain"
      unfolding Ad by auto
    then have "parseQualifiedName name ?driver = (domain, snd (parseQualifiedName name ?driver))"
      by (cases "parseQualifiedName name ?driver") simp
    with na(1) have "inner_of (A domain) (snd (parseQualifiedName name ?driver)) \<noteq> None"
      unfolding Ai by blast
    then have ne: "inner_of (A domain) \<noteq> Map.empty" by auto
    show "\<exists>inner. v = AnyMap inner \<and> inner \<noteq> Map.empty \<and>
           (\<forall>ident. (inner ident \<noteq> None) =
              (\<exists>(name, attr) \<in> set (Attributes input).
                 parseQualifiedName name ?driver = (domain, ident))) \<and>
           (\<forall>ident w. inner ident = Some w \<longrightarrow> is_scalar w)"
      using inner_of_only_maps [OF Am v] ne Ai Av
      by (intro exI [of _ "inner_of (A domain)"]) blast
  qed
  have Clev: "\<forall>domain v. C domain = Some v \<longrightarrow>
        (\<exists>inner. v = AnyQuantityMap inner \<and> inner \<noteq> Map.empty \<and>
           (\<forall>ident. (inner ident \<noteq> None) =
              (\<exists>(name, cap) \<in> set (Capacity input).
                 parseQualifiedName name ?driver = (domain, ident))))"
  proof (intro allI impI)
    fix domain v
    assume v: "C domain = Some v"
    then have "C domain \<noteq> None" by simp
    then obtain name cap where na: "(name, cap) \<in> set (Capacity input)"
      "fst (parseQualifiedName name ?driver) = domain"
      unfolding Cd by auto
    then have "parseQualifiedName name ?driver = (domain, snd (parseQualifiedName name ?driver))"
      by (cases "parseQualifiedName name ?driver") simp
    with na(1) have "quantities_of (C domain) (snd (parseQualifiedName name ?driver)) \<noteq> None"
      unfolding Ci by blast
    then have ne: "quantities_of (C domain) \<noteq> Map.empty" by auto
    show "\<exists>inner. v = AnyQuantityMap inner \<and> inner \<noteq> Map.empty \<and>
           (\<forall>ident. (inner ident \<noteq> None) =
              (\<exists>(name, cap) \<in> set (Capacity input).
                 parseQualifiedName name ?driver = (domain, ident)))"
      using quantities_of_only_maps [OF Cm v] ne Ci
      by (intro exI [of _ "quantities_of (C domain)"]) blast
  qed
  show ?thesis
    using A C run Ad Alev Cd Clev
    by (intro exI [of _ A] exI [of _ C] conjI allI) blast+
qed

theorem DeviceMatches_maps_two_levels_witness:
  "\<exists>attributes (capacity :: string \<Rightarrow> (nat list, int, ex_val) any option).
     DeviceMatches_attributes ex_lib (Driver ex_device) (Attributes ex_device) Map.empty =
       Inr (Inr attributes) \<and>
     DeviceMatches_capacity (Driver ex_device) (Capacity ex_device) Map.empty = Inr capacity \<and>
     attributes ''vendor.example'' \<noteq> None \<and> attributes ''other.example'' = None \<and>
     capacity ''gpu.example.com'' \<noteq> None \<and> capacity ''vendor.example'' = None"
proof -
  have ok: "\<forall>(name, attr) \<in> set (Attributes ex_device). \<exists>v. getAttributeValue ex_lib attr = Inr v"
    by (simp add: ex_device_def getAttributeValue_def)
  have d: "Driver ex_device = ''gpu.example.com''"
    by (simp add: ex_device_def)
  from DeviceMatches_maps_two_levels [OF ok, of "ex_result ExBool" "()"]
  obtain A and C :: "string \<Rightarrow> (nat list, int, ex_val) any option" where
    A: "DeviceMatches_attributes ex_lib (Driver ex_device) (Attributes ex_device) Map.empty =
       Inr (Inr A)" and
    C: "DeviceMatches_capacity (Driver ex_device) (Capacity ex_device) Map.empty = Inr C" and
    Ad: "\<forall>domain. (A domain \<noteq> None) =
        (\<exists>(name, attr) \<in> set (Attributes ex_device).
           fst (parseQualifiedName name (Driver ex_device)) = domain)" and
    Cd: "\<forall>domain. (C domain \<noteq> None) =
        (\<exists>(name, cap) \<in> set (Capacity ex_device).
           fst (parseQualifiedName name (Driver ex_device)) = domain)"
    by (elim exE conjE) (rule that; assumption)
  have "A ''vendor.example'' \<noteq> None" "A ''other.example'' = None"
    using Ad [rule_format, of "''vendor.example''"] Ad [rule_format, of "''other.example''"]
    by (simp_all add: d ex_device_def ex_parse)
  moreover have "C ''gpu.example.com'' \<noteq> None" "C ''vendor.example'' = None"
    using Cd [rule_format, of "''gpu.example.com''"] Cd [rule_format, of "''vendor.example''"]
    by (simp_all add: d ex_device_def ex_parse)
  ultimately show ?thesis
    using A C by blast
qed

text \<open>
  C7. When both maps are built and the program runs without error, a result that
  \<^verbatim>\<open>ConvertToNative\<close> rejects makes \<^verbatim>\<open>DeviceMatches\<close> return \<^verbatim>\<open>false\<close> with an error naming
  the type of the result, and a native value that is not a \<^verbatim>\<open>bool\<close> makes it return \<^verbatim>\<open>false\<close>
  with an error naming the type of that value. Only a native \<^verbatim>\<open>bool\<close> is returned without an
  error.
\<close>

theorem DeviceMatches_conversion_error:
  assumes "DeviceMatches_attributes lib (Driver input) (Attributes input) Map.empty =
             Inr (Inr attributes)"
    and "DeviceMatches_capacity (Driver input) (Capacity input) Map.empty = Inr capacity"
    and "Environment c = Some env" and "Program c = Some prog"
    and "prog_ContextEval lib prog ctx
           [deviceVar \<mapsto> AnyMap
              [driverVar \<mapsto> AnyString (Driver input),
               attributesVar \<mapsto> AnyMapper
                 (newStringInterfaceMapWithDefault lib (env_CELTypeAdapter lib env)
                    attributes (emptyMapVal c)),
               capacityVar \<mapsto> AnyMapper
                 (newStringInterfaceMapWithDefault lib (env_CELTypeAdapter lib env)
                    capacity (emptyMapVal c))]] = (result, details, None)"
  shows "(val_ConvertToNative lib result = Inl err \<longrightarrow>
            DeviceMatches lib c ctx input =
              Inr (False, details,
                   Some (''CEL result of type '' @ val_TypeName lib result @
                         '' could not be converted to bool: '' @ err))) \<and>
         (val_ConvertToNative lib result = Inr (NativeOther t) \<longrightarrow>
            DeviceMatches lib c ctx input =
              Inr (False, details,
                   Some (''CEL native result value should have been a bool, got instead: '' @ t))) \<and>
         (val_ConvertToNative lib result = Inr (NativeBool b) \<longrightarrow>
            DeviceMatches lib c ctx input = Inr (b, details, None))"
  using assms
  by (simp add: DeviceMatches_def DeviceMatches_eval_def DeviceMatches_variables_def Let_def)

theorem DeviceMatches_conversion_error_witness:
  "DeviceMatches ex_lib (ex_result ExAny) () ex_device =
     Inr (False, Some 2,
          Some ''CEL result of type string could not be converted to bool: type conversion error from string to bool'') \<and>
   DeviceMatches ex_lib (ex_result ExInt) () ex_device =
     Inr (False, Some 3,
          Some ''CEL native result value should have been a bool, got instead: string'') \<and>
   DeviceMatches ex_lib (ex_result ExBool) () ex_device = Inr (True, Some 1, None)"
proof -
  let ?A = "[''gpu.example.com'' \<mapsto> AnyMap [''model'' \<mapsto> AnyString ''A100''],
             ''vendor.example'' \<mapsto> AnyMap [''tier'' \<mapsto> AnyInt 3]]"
  let ?C = "[''gpu.example.com'' \<mapsto> AnyQuantityMap [''memory'' \<mapsto> 16]]"
  let ?variables = "\<lambda>prog.
      [deviceVar \<mapsto> AnyMap
         [driverVar \<mapsto> AnyString (Driver ex_device),
          attributesVar \<mapsto> AnyMapper
            (newStringInterfaceMapWithDefault ex_lib (env_CELTypeAdapter ex_lib StoredExpressions)
               ?A (emptyMapVal (ex_result prog))),
          capacityVar \<mapsto> AnyMapper
            (newStringInterfaceMapWithDefault ex_lib (env_CELTypeAdapter ex_lib StoredExpressions)
               ?C (emptyMapVal (ex_result prog)))]]"
  note a = ex_attributes and c = ex_capacity
  have env: "Environment (ex_result prog) = Some StoredExpressions" for prog
    by (simp add: ex_result_def)
  have prog: "Program (ex_result prog) = Some prog" for prog
    by (simp add: ex_result_def)
  have run_any: "prog_ContextEval ex_lib ExAny () (?variables ExAny) =
      (ExValString ''A100'', Some 2, None)"
    by (simp add: ex_lib_sel)
  have run_int: "prog_ContextEval ex_lib ExInt () (?variables ExInt) = (ExValOther, Some 3, None)"
    by (simp add: ex_lib_sel)
  have run_bool: "prog_ContextEval ex_lib ExBool () (?variables ExBool) =
      (ExValBool True, Some 1, None)"
    by (simp add: ex_lib_sel)
  have conv: "val_ConvertToNative ex_lib (ExValString ''A100'') =
      Inl ''type conversion error from string to bool''"
    "val_ConvertToNative ex_lib ExValOther = Inr (NativeOther ''string'')"
    "val_ConvertToNative ex_lib (ExValBool True) = Inr (NativeBool True)"
    "val_TypeName ex_lib (ExValString ''A100'') = ''string''"
    by (simp_all add: ex_lib_sel)
  show ?thesis
    using
      DeviceMatches_conversion_error [OF a c env prog run_any,
        of "''type conversion error from string to bool''"]
      DeviceMatches_conversion_error [OF a c env prog run_int, of _ "''string''"]
      DeviceMatches_conversion_error [OF a c env prog run_bool, of _ _ True]
      conv
    by simp
qed

text \<open>
  C10. Whenever \<^verbatim>\<open>DeviceMatches\<close> returns an error, the boolean returned with it is \<^verbatim>\<open>false\<close>.
\<close>

theorem DeviceMatches_error_false:
  assumes "DeviceMatches lib c ctx input = Inr (matched, details, Some err)"
  shows "matched = False"
  using assms
  by (auto simp add: DeviceMatches_def DeviceMatches_eval_def DeviceMatches_variables_def Let_def
      split: sum.splits option.splits prod.splits native.splits)

theorem DeviceMatches_error_false_witness:
  "\<exists>details err.
     DeviceMatches ex_lib (ex_result ExString) () ex_device = Inr (False, details, Some err)"
proof -
  let ?A = "[''gpu.example.com'' \<mapsto> AnyMap [''model'' \<mapsto> AnyString ''A100''],
             ''vendor.example'' \<mapsto> AnyMap [''tier'' \<mapsto> AnyInt 3]]"
  let ?C = "[''gpu.example.com'' \<mapsto> AnyQuantityMap [''memory'' \<mapsto> 16]]"
  have "DeviceMatches ex_lib (ex_result ExString) () ex_device =
      DeviceMatches_eval ex_lib (ex_result ExString) () ex_device ?A ?C"
    by (simp only: DeviceMatches_def ex_attributes ex_capacity sum.case)
  moreover have "\<exists>matched. DeviceMatches_eval ex_lib (ex_result ExString) () ex_device ?A ?C =
      Inr (matched, None, Some ''operation cancelled: actual cost limit exceeded'')"
    by (auto simp add: DeviceMatches_eval_def ex_result_def ex_lib_sel)
  ultimately have "\<exists>matched. DeviceMatches ex_lib (ex_result ExString) () ex_device =
      Inr (matched, None, Some ''operation cancelled: actual cost limit exceeded'')"
    by simp
  then obtain matched where
    run: "DeviceMatches ex_lib (ex_result ExString) () ex_device =
      Inr (matched, None, Some ''operation cancelled: actual cost limit exceeded'')" ..
  from DeviceMatches_error_false [OF run] run show ?thesis
    by simp
qed

end
